theory Spec2Isabelle
  imports Main
begin

section \<open>Errors\<close>

text \<open>
  Every exception the modelled code can raise is a value.  \<open>UnpackError\<close> is the
  \<open>ValueError\<close> Python raises when \<open>ns, name = s.split(":")\<close> does not yield exactly two
  parts; \<open>DuplicateSource i\<close> is
  \<open>ValueError(f"Data source {repr(id)} already defined; use override=True")\<close>;
  \<open>ValueError m\<close> is a \<open>ValueError\<close> with message \<open>m\<close>.
\<close>

datatype error =
    KeyError string
  | UnpackError
  | DuplicateSource string
  | ValidationError string
  | AttributeError string
  | ValueError string

section \<open>sdmx.format.xml: the tag/class correspondence\<close>

text \<open>
  The message and model classes named in \<open>_CLS_TAG\<close>, the abstract \<open>ItemScheme\<close> the test
  refers to, and \<open>OtherClass n\<close> for any other class object.  Python compares classes by
  identity (\<open>ct[0] is cls\<close>); distinct constructors are distinct class objects.
\<close>

datatype sdmx_class =
    DataMessage | ErrorMessage | StructureMessage
  | Agency | AttributeDescriptor | DataAttribute | DataflowDefinition
  | DataStructureDefinition | Dimension | DimensionDescriptor
  | GroupDimensionDescriptor | GroupKey | Key | MeasureDescriptor | SeriesKey
  | StructureUsage
  | AgencyScheme | Categorisation | Category | CategoryScheme | Code | Codelist
  | Concept | ConceptScheme | ContentConstraint | DataConsumer | DataConsumerScheme
  | DataProvider | DataProviderScheme | PrimaryMeasure | MeasureDimension
  | TimeDimension
  | ItemScheme
  | OtherClass string

text \<open>\<open>lxml.etree.QName(namespace, localname)\<close>; the namespace may be \<open>None\<close>.\<close>

datatype QName = QName "string option" string

definition base_ns :: string where
  "base_ns = ''http://www.sdmx.org/resources/sdmxml/schemas/v2_1''"

definition NS :: "(string \<times> string option) list" where
  "NS =
   [('''', None),
    (''com'', Some (base_ns @ ''/common'')),
    (''data'', Some (base_ns @ ''/data/structurespecific'')),
    (''str'', Some (base_ns @ ''/structure'')),
    (''mes'', Some (base_ns @ ''/message'')),
    (''gen'', Some (base_ns @ ''/data/generic'')),
    (''footer'', Some (base_ns @ ''/message/footer'')),
    (''xml'', Some ''http://www.w3.org/XML/1998/namespace''),
    (''xsi'', Some ''http://www.w3.org/2001/XMLSchema-instance'')]"

text \<open>\<open>str.split(sep)\<close> for a one-character separator: every occurrence splits.\<close>

fun split_on :: "char \<Rightarrow> string \<Rightarrow> string list" where
  "split_on c [] = [[]]"
| "split_on c (x # xs) =
     (if x = c then [] # split_on c xs
      else (case split_on c xs of
              [] \<Rightarrow> [[x]]
            | w # ws \<Rightarrow> (x # w) # ws))"

text \<open>
  \<open>qname(ns_or_name, name=None)\<close> on string arguments: with one argument the string is
  split at \<open>":"\<close> into prefix and local name (exactly two parts, else the unpacking
  raises); the prefix is looked up in \<open>NS\<close> (\<open>KeyError\<close> when absent).
\<close>

definition qname :: "string \<Rightarrow> string option \<Rightarrow> error + QName" where
  "qname ns_or_name name =
     (case (case name of
              None \<Rightarrow> (case split_on CHR '':'' ns_or_name of
                          [a, b] \<Rightarrow> Inr (a, b)
                        | _ \<Rightarrow> Inl UnpackError)
            | Some n \<Rightarrow> Inr (ns_or_name, n)) of
        Inl e \<Rightarrow> Inl e
      | Inr (ns, nm) \<Rightarrow>
          (case map_of NS ns of
             None \<Rightarrow> Inl (KeyError ns)
           | Some uri \<Rightarrow> Inr (QName uri nm)))"

text \<open>\<open>getattr(model, name)\<close> for the names of the comprehension in \<open>_CLS_TAG\<close>.\<close>

definition model_getattr :: "string \<Rightarrow> sdmx_class" where
  "model_getattr name =
     (case map_of
        [(''AgencyScheme'', AgencyScheme), (''Categorisation'', Categorisation),
         (''Category'', Category), (''CategoryScheme'', CategoryScheme),
         (''Code'', Code), (''Codelist'', Codelist), (''Concept'', Concept),
         (''ConceptScheme'', ConceptScheme), (''ContentConstraint'', ContentConstraint),
         (''DataConsumer'', DataConsumer), (''DataConsumerScheme'', DataConsumerScheme),
         (''DataProvider'', DataProvider), (''DataProviderScheme'', DataProviderScheme),
         (''PrimaryMeasure'', PrimaryMeasure), (''MeasureDimension'', MeasureDimension),
         (''TimeDimension'', TimeDimension)] name of
        Some c \<Rightarrow> c
      | None \<Rightarrow> OtherClass name)"

text \<open>Evaluating a list literal whose elements may raise: the first error wins.\<close>

fun collect :: "(error + 'a) list \<Rightarrow> error + 'a list" where
  "collect [] = Inr []"
| "collect (r # rs) =
     (case r of
        Inl e \<Rightarrow> Inl e
      | Inr x \<Rightarrow> (case collect rs of Inl e \<Rightarrow> Inl e | Inr xs \<Rightarrow> Inr (x # xs)))"

definition entry :: "sdmx_class \<Rightarrow> error + QName \<Rightarrow> error + (sdmx_class \<times> QName)" where
  "entry c r = (case r of Inl e \<Rightarrow> Inl e | Inr t \<Rightarrow> Inr (c, t))"

text \<open>The module-level expression that builds \<open>_CLS_TAG\<close>, as written in the source.\<close>

definition CLS_TAG_init :: "error + (sdmx_class \<times> QName) list" where
  "CLS_TAG_init = collect
    ([entry DataMessage (qname ''mes:GenericData'' None),
      entry DataMessage (qname ''mes:GenericTimeSeriesData'' None),
      entry DataMessage (qname ''mes:StructureSpecificData'' None),
      entry DataMessage (qname ''mes:StructureSpecificTimeSeriesData'' None),
      entry ErrorMessage (qname ''mes:Error'' None),
      entry StructureMessage (qname ''mes:Structure'' None),
      entry Agency (qname ''str:Agency'' None),
      entry Agency (qname ''mes:Receiver'' None),
      entry Agency (qname ''mes:Sender'' None),
      entry AttributeDescriptor (qname ''str:AttributeList'' None),
      entry DataAttribute (qname ''str:Attribute'' None),
      entry DataflowDefinition (qname ''str:Dataflow'' None),
      entry DataStructureDefinition (qname ''str:DataStructure'' None),
      entry DataStructureDefinition (qname ''com:Structure'' None),
      entry DataStructureDefinition (qname ''str:Structure'' None),
      entry Dimension (qname ''str:Dimension'' None),
      entry Dimension (qname ''str:DimensionReference'' None),
      entry Dimension (qname ''str:GroupDimension'' None),
      entry DimensionDescriptor (qname ''str:DimensionList'' None),
      entry GroupDimensionDescriptor (qname ''str:Group'' None),
      entry GroupDimensionDescriptor (qname ''str:AttachmentGroup'' None),
      entry GroupKey (qname ''gen:GroupKey'' None),
      entry Key (qname ''gen:ObsKey'' None),
      entry MeasureDescriptor (qname ''str:MeasureList'' None),
      entry SeriesKey (qname ''gen:SeriesKey'' None),
      entry StructureUsage (qname ''com:StructureUsage'' None)]
     @ map (\<lambda>name. entry (model_getattr name) (qname ''str'' (Some name)))
        [''AgencyScheme'', ''Categorisation'', ''Category'', ''CategoryScheme'',
         ''Code'', ''Codelist'', ''Concept'', ''ConceptScheme'', ''ContentConstraint'',
         ''DataConsumer'', ''DataConsumerScheme'', ''DataProvider'',
         ''DataProviderScheme'', ''PrimaryMeasure'', ''MeasureDimension'',
         ''TimeDimension''])"

definition com_ns :: "string option" where "com_ns = Some (base_ns @ ''/common'')"
definition str_ns :: "string option" where "str_ns = Some (base_ns @ ''/structure'')"
definition mes_ns :: "string option" where "mes_ns = Some (base_ns @ ''/message'')"
definition gen_ns :: "string option" where "gen_ns = Some (base_ns @ ''/data/generic'')"

text \<open>The value of \<open>_CLS_TAG\<close> once the module is loaded (see \<open>CLS_TAG_init_value\<close>).\<close>

definition CLS_TAG :: "(sdmx_class \<times> QName) list" where
  "CLS_TAG =
    [(DataMessage, QName mes_ns ''GenericData''),
     (DataMessage, QName mes_ns ''GenericTimeSeriesData''),
     (DataMessage, QName mes_ns ''StructureSpecificData''),
     (DataMessage, QName mes_ns ''StructureSpecificTimeSeriesData''),
     (ErrorMessage, QName mes_ns ''Error''),
     (StructureMessage, QName mes_ns ''Structure''),
     (Agency, QName str_ns ''Agency''),
     (Agency, QName mes_ns ''Receiver''),
     (Agency, QName mes_ns ''Sender''),
     (AttributeDescriptor, QName str_ns ''AttributeList''),
     (DataAttribute, QName str_ns ''Attribute''),
     (DataflowDefinition, QName str_ns ''Dataflow''),
     (DataStructureDefinition, QName str_ns ''DataStructure''),
     (DataStructureDefinition, QName com_ns ''Structure''),
     (DataStructureDefinition, QName str_ns ''Structure''),
     (Dimension, QName str_ns ''Dimension''),
     (Dimension, QName str_ns ''DimensionReference''),
     (Dimension, QName str_ns ''GroupDimension''),
     (DimensionDescriptor, QName str_ns ''DimensionList''),
     (GroupDimensionDescriptor, QName str_ns ''Group''),
     (GroupDimensionDescriptor, QName str_ns ''AttachmentGroup''),
     (GroupKey, QName gen_ns ''GroupKey''),
     (Key, QName gen_ns ''ObsKey''),
     (MeasureDescriptor, QName str_ns ''MeasureList''),
     (SeriesKey, QName gen_ns ''SeriesKey''),
     (StructureUsage, QName com_ns ''StructureUsage''),
     (AgencyScheme, QName str_ns ''AgencyScheme''),
     (Categorisation, QName str_ns ''Categorisation''),
     (Category, QName str_ns ''Category''),
     (CategoryScheme, QName str_ns ''CategoryScheme''),
     (Code, QName str_ns ''Code''),
     (Codelist, QName str_ns ''Codelist''),
     (Concept, QName str_ns ''Concept''),
     (ConceptScheme, QName str_ns ''ConceptScheme''),
     (ContentConstraint, QName str_ns ''ContentConstraint''),
     (DataConsumer, QName str_ns ''DataConsumer''),
     (DataConsumerScheme, QName str_ns ''DataConsumerScheme''),
     (DataProvider, QName str_ns ''DataProvider''),
     (DataProviderScheme, QName str_ns ''DataProviderScheme''),
     (PrimaryMeasure, QName str_ns ''PrimaryMeasure''),
     (MeasureDimension, QName str_ns ''MeasureDimension''),
     (TimeDimension, QName str_ns ''TimeDimension'')]"

text \<open>
  \<open>class_for_tag\<close>: the classes of the entries whose tag equals \<open>tag\<close>, lazily; \<open>next\<close>
  takes the first, \<open>StopIteration\<close> becomes \<open>None\<close>.  \<open>lru_cache\<close> only memoises.
\<close>

definition class_for_tag :: "QName \<Rightarrow> sdmx_class option" where
  "class_for_tag tag =
     (case map fst (filter (\<lambda>ct. snd ct = tag) CLS_TAG) of
        [] \<Rightarrow> None
      | c # _ \<Rightarrow> Some c)"

definition tag_for_class :: "sdmx_class \<Rightarrow> QName option" where
  "tag_for_class cls =
     (case map snd (filter (\<lambda>ct. fst ct = cls) CLS_TAG) of
        [] \<Rightarrow> None
      | t # _ \<Rightarrow> Some t)"

section \<open>sdmx.source: source descriptions and the registry\<close>

datatype DataContentType = XML | JSON

text \<open>
  The keys of \<open>supports\<close> are members of \<open>Resource\<close> and the strings \<open>"preview"\<close> and
  \<open>"structure-specific data"\<close>.  A member is keyed by its name (\<open>Resource.data\<close> is the key
  \<open>''data''\<close>), which is how the JSON descriptions name it.  The enumeration itself
  (\<open>sdmx.rest.Resource\<close>) is a parameter \<open>resources\<close>, the list \<open>list(Resource)\<close>.
\<close>

type_synonym feature = string

text \<open>The class-level default of the field \<open>supports\<close>.\<close>

definition supports_default :: "(feature \<times> bool) list" where
  "supports_default =
    [(''data'', True),
     (''actualconstraint'', False),
     (''allowedconstraint'', False),
     (''attachementconstraint'', False),
     (''customtypescheme'', False),
     (''dataconsumerscheme'', False),
     (''dataproviderscheme'', False),
     (''hierarchicalcodelist'', False),
     (''metadata'', False),
     (''metadataflow'', False),
     (''metadatastructure'', False),
     (''namepersonalisationscheme'', False),
     (''organisationunitscheme'', False),
     (''process'', False),
     (''reportingtaxonomy'', False),
     (''rulesetscheme'', False),
     (''schema'', False),
     (''transformationscheme'', False),
     (''userdefinedoperatorscheme'', False),
     (''vtlmappingscheme'', False)]"

text \<open>
  A source class: \<open>Source\<close> itself or a subclass found in a module \<open>sdmx.source.<id>\<close>;
  \<open>cls_id\<close> is the optional class attribute \<open>_id\<close> that \<open>_validate_id\<close> reads.
\<close>

record source_class =
  cls_module :: string
  cls_id :: "string option"

definition Source_cls :: source_class where
  "Source_cls = \<lparr>cls_module = ''sdmx.source'', cls_id = None\<rparr>"

text \<open>A value given for \<open>data_content_type\<close>: a member, or a string naming one.\<close>

datatype dct_value = DCT DataContentType | DCTName string

text \<open>
  The \<open>info\<close> dictionary of a source description, with the keys the class reads; an
  absent key is \<open>None\<close>.  Keys the model class does not declare are not represented.
\<close>

record info =
  info_id :: "string option"
  info_url :: "string option"
  info_name :: "string option"
  info_data_content_type :: "dct_value option"
  info_supports :: "(feature \<rightharpoonup> bool) option"

record Source =
  src_class :: source_class
  src_id :: string
  src_url :: string
  src_name :: string
  src_data_content_type :: DataContentType
  src_supports :: "feature \<rightharpoonup> bool"

text \<open>\<open>dict.update\<close> on \<open>info\<close>: every key present in \<open>kw\<close> replaces the one of \<open>i\<close>.\<close>

definition override_with :: "'a option \<Rightarrow> 'a option \<Rightarrow> 'a option" where
  "override_with old new = (case new of None \<Rightarrow> old | Some v \<Rightarrow> Some v)"

definition info_update :: "info \<Rightarrow> info \<Rightarrow> info" where
  "info_update i kw =
     \<lparr>info_id = override_with (info_id i) (info_id kw),
      info_url = override_with (info_url i) (info_url kw),
      info_name = override_with (info_name i) (info_name kw),
      info_data_content_type =
        override_with (info_data_content_type i) (info_data_content_type kw),
      info_supports = override_with (info_supports i) (info_supports kw)\<rparr>"

text \<open>\<open>_validate_dct\<close>: a member is kept, a string is looked up by name.\<close>

definition validate_dct :: "dct_value \<Rightarrow> error + DataContentType" where
  "validate_dct v =
     (case v of
        DCT d \<Rightarrow> Inr d
      | DCTName n \<Rightarrow>
          (if n = ''XML'' then Inr XML
           else if n = ''JSON'' then Inr JSON
           else Inl (KeyError n)))"

text \<open>\<open>_validate_id\<close>: \<open>assert getattr(cls, "_id", value) == value\<close>.\<close>

definition validate_id :: "source_class \<Rightarrow> string \<Rightarrow> error + string" where
  "validate_id cls v =
     (if (case cls_id cls of None \<Rightarrow> v | Some i \<Rightarrow> i) = v then Inr v
      else Inl (ValidationError ''id''))"

text \<open>
  \<open>super().__init__(**kwargs)\<close>, after \<open>supports\<close> has been popped from \<open>kwargs\<close>: the
  required fields \<open>id\<close>, \<open>url\<close> and \<open>name\<close> must be present, \<open>data_content_type\<close> defaults
  to XML, and \<open>supports\<close> is the instance's own copy of the class-level default.
\<close>

definition BaseModel_init :: "source_class \<Rightarrow> info \<Rightarrow> error + Source" where
  "BaseModel_init cls kwargs =
     (case info_id kwargs of
        None \<Rightarrow> Inl (ValidationError ''id'')
      | Some i \<Rightarrow>
     (case validate_id cls i of
        Inl e \<Rightarrow> Inl e
      | Inr i' \<Rightarrow>
     (case info_url kwargs of
        None \<Rightarrow> Inl (ValidationError ''url'')
      | Some u \<Rightarrow>
     (case info_name kwargs of
        None \<Rightarrow> Inl (ValidationError ''name'')
      | Some n \<Rightarrow>
     (case (case info_data_content_type kwargs of
              None \<Rightarrow> Inr XML
            | Some v \<Rightarrow> validate_dct v) of
        Inl e \<Rightarrow> Inl e
      | Inr d \<Rightarrow>
          Inr \<lparr>src_class = cls, src_id = i', src_url = u, src_name = n,
               src_data_content_type = d,
               src_supports = map_of supports_default\<rparr>)))))"

definition setdefault :: "('k \<rightharpoonup> 'v) \<Rightarrow> 'k \<Rightarrow> 'v \<Rightarrow> ('k \<rightharpoonup> 'v)" where
  "setdefault m k v = (case m k of None \<Rightarrow> m(k \<mapsto> v) | Some _ \<Rightarrow> m)"

text \<open>
  \<open>Source.__init__\<close>: pop \<open>supports\<close> (default: empty dict), initialise the fields, merge
  the given values over the defaults, then give every feature of
  \<open>list(Resource) + ["preview", "structure-specific data"]\<close> that is still missing the
  value \<open>data_content_type == XML\<close>.
\<close>

definition Source_init :: "feature list \<Rightarrow> source_class \<Rightarrow> info \<Rightarrow> error + Source" where
  "Source_init resources cls kwargs =
     (let supports = (case info_supports kwargs of None \<Rightarrow> Map.empty | Some m \<Rightarrow> m)
      in case BaseModel_init cls kwargs of
           Inl e \<Rightarrow> Inl e
         | Inr self \<Rightarrow>
             Inr (self\<lparr>src_supports :=
                    fold (\<lambda>feature m.
                            setdefault m feature (src_data_content_type self = XML))
                      (resources @ [''preview'', ''structure-specific data''])
                      (src_supports self ++ supports)\<rparr>))"

text \<open>\<open>str.lower\<close> on ASCII text.\<close>

definition lower_char :: "char \<Rightarrow> char" where
  "lower_char c =
     (let n = (of_char c :: nat) in if 65 \<le> n \<and> n \<le> 90 then char_of (n + 32) else c)"

definition lower :: "string \<Rightarrow> string" where
  "lower s = map lower_char s"

text \<open>
  The outcome of \<open>import_module("." + id.lower(), "sdmx.source")\<close> followed by
  \<open>getattr(mod, "Source")\<close>: no such module, a module without \<open>Source\<close>, or the class.
  Which modules exist is a parameter \<open>modules\<close> of \<open>add_source\<close>.
\<close>

datatype import_result = ImportError | Module "source_class option"

definition resolve_id :: "info \<Rightarrow> string option \<Rightarrow> error + string" where
  "resolve_id info i =
     (case (case i of None \<Rightarrow> None | Some v \<Rightarrow> if v = [] then None else Some v) of
        Some v \<Rightarrow> Inr v
      | None \<Rightarrow> (case info_id info of None \<Rightarrow> Inl (KeyError ''id'') | Some v \<Rightarrow> Inr v))"

definition find_class :: "(string \<Rightarrow> import_result) \<Rightarrow> string \<Rightarrow> error + source_class" where
  "find_class modules i =
     (case modules (lower i) of
        ImportError \<Rightarrow> Inr Source_cls
      | Module None \<Rightarrow> Inl (AttributeError ''Source'')
      | Module (Some c) \<Rightarrow> Inr c)"

text \<open>
  \<open>add_source(info, id, override, **kwargs)\<close> on the registry \<open>sources\<close>, for \<open>info\<close>
  given as a dictionary (or already read by \<open>json.loads\<close>); the registry is returned
  with the outcome, also when the call raises.  \<open>id or _info["id"]\<close> takes \<open>_info["id"]\<close>
  when \<open>id\<close> is \<open>None\<close> or empty.  The only statement that changes the registry is the
  last one, \<open>sources[id] = SourceClass.from_dict(_info)\<close>.
\<close>

definition add_source ::
  "(string \<Rightarrow> import_result) \<Rightarrow> feature list \<Rightarrow> info \<Rightarrow> string option \<Rightarrow> bool \<Rightarrow> info \<Rightarrow>
   (string \<rightharpoonup> Source) \<Rightarrow> (error + unit) \<times> (string \<rightharpoonup> Source)" where
  "add_source modules resources info i override kwargs sources =
     (case resolve_id info i of
        Inl e \<Rightarrow> (Inl e, sources)
      | Inr i' \<Rightarrow>
          (let info' = info_update info kwargs in
           if \<not> override \<and> sources i' \<noteq> None then (Inl (DuplicateSource i'), sources)
           else (case find_class modules i' of
                   Inl e \<Rightarrow> (Inl e, sources)
                 | Inr SourceClass \<Rightarrow>
                     (case Source_init resources SourceClass info' of
                        Inl e \<Rightarrow> (Inl e, sources)
                      | Inr s \<Rightarrow> (Inr (), sources(i' \<mapsto> s))))))"

text \<open>The value popped by \<open>kwargs.pop("supports", dict())\<close>.\<close>

definition given_supports :: "info \<Rightarrow> feature \<rightharpoonup> bool" where
  "given_supports kw = (case info_supports kw of None \<Rightarrow> Map.empty | Some m \<Rightarrow> m)"

text \<open>
  Concrete inputs: the members of \<open>Resource\<close> that this module names (the keys of the
  class-level default and \<open>codelist\<close> of the docstring of \<open>add_source\<close>), two source
  descriptions with the id \<open>X\<close>, empty keyword arguments, an environment without
  per-source modules, and a registry that already holds \<open>X\<close>.
\<close>

definition test_resources :: "feature list" where
  "test_resources = map fst supports_default @ [''codelist'']"

definition xml_info :: info where
  "xml_info =
     \<lparr>info_id = Some ''X'', info_url = Some ''https://example.org/rest'',
      info_name = Some ''Example'', info_data_content_type = None,
      info_supports = None\<rparr>"

definition json_info :: info where
  "json_info =
     \<lparr>info_id = Some ''X'', info_url = Some ''https://example.org/json'',
      info_name = Some ''Example 2'', info_data_content_type = Some (DCTName ''JSON''),
      info_supports = None\<rparr>"

definition no_kwargs :: info where
  "no_kwargs =
     \<lparr>info_id = None, info_url = None, info_name = None,
      info_data_content_type = None, info_supports = None\<rparr>"

definition no_modules :: "string \<Rightarrow> import_result" where
  "no_modules m = ImportError"

definition xml_source :: Source where
  "xml_source = projr (Source_init test_resources Source_cls xml_info)"

definition json_source :: Source where
  "json_source = projr (Source_init test_resources Source_cls json_info)"

definition registry_X :: "string \<rightharpoonup> Source" where
  "registry_X = [''X'' \<mapsto> xml_source]"

section \<open>sdmx.urn: building and matching URNs\<close>

text \<open>
  The module \<open>sdmx.urn\<close> and the model classes are not among the sources; only the tests
  of \<open>make\<close> and \<open>match\<close> are (\<open>tests/test_urn.py\<close>).  The definitions of this section
  are therefore written from the specification, with the message texts and display
  representations the tests fix.
\<close>

text \<open>
  Modelled from the spec: the runtime type of a domain object together with its entry in
  the static type-to-package table of \<open>sdmx.urn\<close> (the table is missing), as the pair of
  package name and class name that the URN shows.
\<close>

record urn_type =
  type_package :: string
  type_name :: string

text \<open>
  Modelled from the spec: a maintainable artefact of \<open>sdmx.model\<close> (missing), with its
  identifier, optional maintainer (the owning agency's id), optional version, and the
  number of items it holds, which its display representation shows.
\<close>

record maintainable =
  ma_type :: urn_type
  ma_id :: string
  ma_maintainer :: "string option"
  ma_version :: "string option"
  ma_items :: nat

text \<open>
  Modelled from the spec: a domain object of \<open>sdmx.model\<close> (missing) is a maintainable
  artefact or an item with its type, its id and its enclosing maintainable parent, if any.
\<close>

datatype artefact =
    Maintainable maintainable
  | Item urn_type string "maintainable option"

text \<open>Decimal digits of a natural number, as \<open>str(n)\<close> prints it.\<close>

function show_nat :: "nat \<Rightarrow> string" where
  "show_nat n =
     (if n < 10 then [char_of (48 + n)]
      else show_nat (n div 10) @ [char_of (48 + n mod 10)])"
  by pat_completeness auto
termination
  by (relation "measure (\<lambda>n. n)") auto

declare show_nat.simps [simp del]

text \<open>
  Modelled from the spec: the display representations (\<open>repr\<close>, in the missing
  \<open>sdmx.model\<close>) that the error messages of \<open>make\<close> name, in the form the tests expect:
  \<open><Code BAR>\<close>, \<open><Codelist FOO (1 items)>\<close>, \<open><Codelist BAZ:FOO (1 items)>\<close>.
\<close>

definition repr_ma :: "maintainable \<Rightarrow> string" where
  "repr_ma m =
     ''<'' @ type_name (ma_type m) @ '' ''
       @ (case ma_maintainer m of None \<Rightarrow> [] | Some a \<Rightarrow> a @ '':'')
       @ ma_id m @ '' ('' @ show_nat (ma_items m) @ '' items)>''"

definition repr :: "artefact \<Rightarrow> string" where
  "repr obj =
     (case obj of
        Maintainable m \<Rightarrow> repr_ma m
      | Item t i p \<Rightarrow> ''<'' @ type_name t @ '' '' @ i @ ''>'')"

text \<open>
  Modelled from the spec: \<open>make(obj, strict=False)\<close> of the missing \<open>sdmx.urn\<close>
  (the spec's \<open>build\<close>), named \<open>make_urn\<close> here since every record has a \<open>make\<close>.  The maintainable artefact is the object itself or the item's
  parent.  In this order: no maintainable artefact, no maintainer, and (strict only) no
  version are errors, with the message texts of \<open>test_urn.py\<close>; otherwise the URN is
  written, without the version segment when there is no version and with the item id
  appended for an item.
\<close>

definition make_urn :: "artefact \<Rightarrow> bool \<Rightarrow> error + string" where
  "make_urn obj strict =
     (case (case obj of
              Maintainable m \<Rightarrow> (Some m, ma_type m, [])
            | Item t i p \<Rightarrow> (p, t, ''.'' @ i)) of
        (None, t, extra_id) \<Rightarrow>
          Inl (ValueError (''Neither '' @ repr obj @ '' nor None are maintainable''))
      | (Some ma, t, extra_id) \<Rightarrow>
          (case ma_maintainer ma of
             None \<Rightarrow>
               Inl (ValueError
                 (''Cannot construct URN for '' @ repr_ma ma @ '' without maintainer''))
           | Some agency \<Rightarrow>
               if strict \<and> ma_version ma = None then
                 Inl (ValueError
                   (''Cannot construct URN for '' @ repr_ma ma @ '' without version''))
               else
                 Inr (''urn:sdmx:org.sdmx.infomodel.'' @ type_package t @ ''.''
                      @ type_name t @ ''='' @ agency @ '':'' @ ma_id ma
                      @ (case ma_version ma of None \<Rightarrow> [] | Some v \<Rightarrow> ''('' @ v @ '')'')
                      @ extra_id)))"




definition urn_prefix :: string where
  "urn_prefix = ''urn:sdmx:org.sdmx.infomodel.''"



text \<open>
  The parts of an object that \<open>make_urn\<close> reads: its type, its maintainable artefact (itself
  or its parent) and the item suffix.
\<close>

definition obj_type :: "artefact \<Rightarrow> urn_type" where
  "obj_type obj = (case obj of Maintainable m \<Rightarrow> ma_type m | Item t i p \<Rightarrow> t)"

definition obj_ma :: "artefact \<Rightarrow> maintainable option" where
  "obj_ma obj = (case obj of Maintainable m \<Rightarrow> Some m | Item t i p \<Rightarrow> p)"

definition extra_id :: "artefact \<Rightarrow> string" where
  "extra_id obj = (case obj of Maintainable m \<Rightarrow> [] | Item t i p \<Rightarrow> ''.'' @ i)"

text \<open>The objects of \<open>test_make\<close>: the code \<open>BAR\<close> and the codelist \<open>FOO\<close> at each step.\<close>

definition Code_type :: urn_type where
  "Code_type = \<lparr>type_package = ''codelist'', type_name = ''Code''\<rparr>"

definition Codelist_type :: urn_type where
  "Codelist_type = \<lparr>type_package = ''codelist'', type_name = ''Codelist''\<rparr>"

definition cl_FOO :: "string option \<Rightarrow> string option \<Rightarrow> maintainable" where
  "cl_FOO maintainer version =
     \<lparr>ma_type = Codelist_type, ma_id = ''FOO'', ma_maintainer = maintainer,
      ma_version = version, ma_items = 1\<rparr>"

definition c_BAR :: "maintainable option \<Rightarrow> artefact" where
  "c_BAR parent = Item Code_type ''BAR'' parent"

section \<open>Facts about the table\<close>

lemma qname_str: "qname ''str'' (Some n) = Inr (QName str_ns n)"
  by (simp add: qname_def NS_def str_ns_def)

lemma CLS_TAG_init_value: "CLS_TAG_init = Inr CLS_TAG"
  by (simp add: CLS_TAG_init_def CLS_TAG_def entry_def qname_def NS_def model_getattr_def
      com_ns_def str_ns_def mes_ns_def gen_ns_def)

lemma first_match:
  "filter P xs \<noteq> [] \<Longrightarrow>
   \<exists>i<length xs. P (xs ! i) \<and> (\<forall>j<i. \<not> P (xs ! j)) \<and> hd (filter P xs) = xs ! i"
proof (induction xs)
  case Nil
  then show ?case by simp
next
  case (Cons x xs)
  show ?case
  proof (cases "P x")
    case True
    then have "P ((x # xs) ! 0) \<and> (\<forall>j<0. \<not> P ((x # xs) ! j)) \<and>
        hd (filter P (x # xs)) = (x # xs) ! 0"
      by simp
    then show ?thesis by blast
  next
    case False
    with Cons.prems have "filter P xs \<noteq> []" by simp
    from Cons.IH [OF this] obtain i where i: "i < length xs" "P (xs ! i)"
      "\<forall>j<i. \<not> P (xs ! j)" "hd (filter P xs) = xs ! i" by blast
    have "\<forall>j<Suc i. \<not> P ((x # xs) ! j)"
    proof (intro allI impI)
      fix j assume "j < Suc i"
      then show "\<not> P ((x # xs) ! j)" using False i(3) by (cases j) auto
    qed
    with i False have "Suc i < length (x # xs) \<and> P ((x # xs) ! Suc i) \<and>
       (\<forall>j<Suc i. \<not> P ((x # xs) ! j)) \<and> hd (filter P (x # xs)) = (x # xs) ! Suc i"
      by simp
    then show ?thesis by blast
  qed
qed

lemma tag_for_class_hd:
  "filter (\<lambda>ct. fst ct = cls) CLS_TAG \<noteq> [] \<Longrightarrow>
   tag_for_class cls = Some (snd (hd (filter (\<lambda>ct. fst ct = cls) CLS_TAG)))"
  by (cases "filter (\<lambda>ct. fst ct = cls) CLS_TAG") (simp_all add: tag_for_class_def)

lemma tag_for_class_member:
  assumes "tag_for_class cls = Some t"
  shows "(cls, t) \<in> set CLS_TAG"
proof (cases "filter (\<lambda>ct. fst ct = cls) CLS_TAG")
  case Nil
  with assms show ?thesis by (simp add: tag_for_class_def)
next
  case (Cons a r)
  with assms have "snd a = t" by (simp add: tag_for_class_def)
  moreover from Cons have "a \<in> set (filter (\<lambda>ct. fst ct = cls) CLS_TAG)" by simp
  then have "a \<in> set CLS_TAG" "fst a = cls" by simp_all
  ultimately show ?thesis by (cases a) simp
qed

lemma tags_distinct: "distinct (map snd CLS_TAG)"
  by (simp add: CLS_TAG_def com_ns_def str_ns_def mes_ns_def gen_ns_def base_ns_def)

lemma unique_tag_class:
  "distinct (map snd tbl) \<Longrightarrow> (c, t) \<in> set tbl \<Longrightarrow>
   map fst (filter (\<lambda>ct. snd ct = t) tbl) = [c]"
proof (induction tbl)
  case Nil
  then show ?case by simp
next
  case (Cons a tbl)
  show ?case
  proof (cases "a = (c, t)")
    case True
    with Cons.prems(1) have "t \<notin> snd ` set tbl" by simp
    then have "filter (\<lambda>ct. snd ct = t) tbl = []"
      by (auto simp: filter_empty_conv)
    with True show ?thesis by simp
  next
    case False
    with Cons.prems have in_tl: "(c, t) \<in> set tbl" by simp
    then have "t \<in> snd ` set tbl" by force
    with Cons.prems(1) have "snd a \<noteq> t" by auto
    with Cons.IH Cons.prems(1) in_tl show ?thesis by simp
  qed
qed

section \<open>Claims about the tag/class correspondence\<close>

text \<open>
  C1.  A class with more than one entry in \<open>_CLS_TAG\<close> resolves to the tag of its first
  entry in declaration order: there is an index \<open>i\<close> holding the class, no earlier index
  holds it, and \<open>tag_for_class\<close> returns the tag at \<open>i\<close>.  In particular \<open>Agency\<close> resolves
  to \<open>qname("str:Agency")\<close> and \<open>Dimension\<close> to \<open>qname("str:Dimension")\<close>.
\<close>

theorem tag_for_class_first_declared:
  "(1 < length (filter (\<lambda>ct. fst ct = cls) CLS_TAG) \<longrightarrow>
     (\<exists>i<length CLS_TAG. fst (CLS_TAG ! i) = cls \<and> (\<forall>j<i. fst (CLS_TAG ! j) \<noteq> cls) \<and>
        tag_for_class cls = Some (snd (CLS_TAG ! i))))
   \<and> qname ''str:Agency'' None = Inr (QName str_ns ''Agency'')
   \<and> tag_for_class Agency = Some (QName str_ns ''Agency'')
   \<and> qname ''str:Dimension'' None = Inr (QName str_ns ''Dimension'')
   \<and> tag_for_class Dimension = Some (QName str_ns ''Dimension'')"
proof (intro conjI impI)
  assume "1 < length (filter (\<lambda>ct. fst ct = cls) CLS_TAG)"
  then have ne: "filter (\<lambda>ct. fst ct = cls) CLS_TAG \<noteq> []" by auto
  from first_match [OF ne] obtain i where i: "i < length CLS_TAG" "fst (CLS_TAG ! i) = cls"
    "\<forall>j<i. fst (CLS_TAG ! j) \<noteq> cls"
    "hd (filter (\<lambda>ct. fst ct = cls) CLS_TAG) = CLS_TAG ! i" by blast
  from tag_for_class_hd [OF ne] i(4) have "tag_for_class cls = Some (snd (CLS_TAG ! i))"
    by simp
  with i show "\<exists>i<length CLS_TAG. fst (CLS_TAG ! i) = cls \<and>
      (\<forall>j<i. fst (CLS_TAG ! j) \<noteq> cls) \<and> tag_for_class cls = Some (snd (CLS_TAG ! i))"
    by blast
next
  show "qname ''str:Agency'' None = Inr (QName str_ns ''Agency'')"
    by (simp add: qname_def NS_def str_ns_def)
next
  show "tag_for_class Agency = Some (QName str_ns ''Agency'')"
    by (simp add: tag_for_class_def CLS_TAG_def)
next
  show "qname ''str:Dimension'' None = Inr (QName str_ns ''Dimension'')"
    by (simp add: qname_def NS_def str_ns_def)
next
  show "tag_for_class Dimension = Some (QName str_ns ''Dimension'')"
    by (simp add: tag_for_class_def CLS_TAG_def)
qed

theorem tag_for_class_first_declared_witness:
  "1 < length (filter (\<lambda>ct. fst ct = DataStructureDefinition) CLS_TAG) \<and>
   (\<exists>i<length CLS_TAG. fst (CLS_TAG ! i) = DataStructureDefinition \<and>
      (\<forall>j<i. fst (CLS_TAG ! j) \<noteq> DataStructureDefinition) \<and>
      tag_for_class DataStructureDefinition = Some (snd (CLS_TAG ! i)))"
proof -
  have h: "1 < length (filter (\<lambda>ct. fst ct = DataStructureDefinition) CLS_TAG)"
    by (simp add: CLS_TAG_def)
  from tag_for_class_first_declared [of DataStructureDefinition] h show ?thesis
    by blast
qed

text \<open>
  C2.  A class with at least one entry in \<open>_CLS_TAG\<close> has a tag, and \<open>class_for_tag\<close> of
  that tag is the class again; a class with no entry has no tag (\<open>None\<close>), and
  \<open>ItemScheme\<close> is such a class.
\<close>

theorem class_for_tag_of_tag_for_class:
  "((\<exists>t. (cls, t) \<in> set CLS_TAG) \<longrightarrow>
      (\<exists>t. tag_for_class cls = Some t \<and> class_for_tag t = Some cls))
   \<and> ((\<forall>t. (cls, t) \<notin> set CLS_TAG) \<longrightarrow> tag_for_class cls = None)
   \<and> (\<forall>t. (ItemScheme, t) \<notin> set CLS_TAG)
   \<and> tag_for_class ItemScheme = None"
proof (intro conjI impI)
  assume "\<exists>t. (cls, t) \<in> set CLS_TAG"
  then obtain t0 where "(cls, t0) \<in> set CLS_TAG" ..
  then have ne: "filter (\<lambda>ct. fst ct = cls) CLS_TAG \<noteq> []"
    by (force simp: filter_empty_conv)
  from tag_for_class_hd [OF ne] obtain t where t: "tag_for_class cls = Some t" by blast
  from tag_for_class_member [OF t] have "(cls, t) \<in> set CLS_TAG" .
  from unique_tag_class [OF tags_distinct this] have "class_for_tag t = Some cls"
    by (simp add: class_for_tag_def)
  with t show "\<exists>t. tag_for_class cls = Some t \<and> class_for_tag t = Some cls" by blast
next
  assume "\<forall>t. (cls, t) \<notin> set CLS_TAG"
  then have "filter (\<lambda>ct. fst ct = cls) CLS_TAG = []"
    by (auto simp: filter_empty_conv)
  then show "tag_for_class cls = None" by (simp add: tag_for_class_def)
next
  show "\<forall>t. (ItemScheme, t) \<notin> set CLS_TAG" by (simp add: CLS_TAG_def)
next
  show "tag_for_class ItemScheme = None" by (simp add: tag_for_class_def CLS_TAG_def)
qed

theorem class_for_tag_of_tag_for_class_witness:
  "(\<exists>t. (Code, t) \<in> set CLS_TAG) \<and>
   (\<exists>t. tag_for_class Code = Some t \<and> class_for_tag t = Some Code) \<and>
   (\<forall>t. (OtherClass ''Item'', t) \<notin> set CLS_TAG) \<and>
   tag_for_class (OtherClass ''Item'') = None"
proof -
  have h1: "\<exists>t. (Code, t) \<in> set CLS_TAG" by (simp add: CLS_TAG_def)
  have h2: "\<forall>t. (OtherClass ''Item'', t) \<notin> set CLS_TAG" by (simp add: CLS_TAG_def)
  from class_for_tag_of_tag_for_class [of Code] h1
    class_for_tag_of_tag_for_class [of "OtherClass ''Item''"] h2
  show ?thesis by blast
qed

section \<open>Facts about source descriptions\<close>

lemma fold_setdefault:
  "fold (\<lambda>f m. setdefault m f v) fs m k =
     (case m k of Some b \<Rightarrow> Some b | None \<Rightarrow> if k \<in> set fs then Some v else None)"
  by (induction fs arbitrary: m) (auto simp: setdefault_def split: option.splits)

lemma BaseModel_init_supports:
  "BaseModel_init cls kw = Inr self \<Longrightarrow> src_supports self = map_of supports_default"
  by (auto simp: BaseModel_init_def split: option.splits sum.splits)

text \<open>
  Every entry of \<open>supports\<close> after \<open>Source.__init__\<close>: the given value, else the
  class-level default, else (for a listed feature) whether the content type is XML.
\<close>

lemma Source_init_supports:
  assumes "Source_init rs cls kw = Inr s"
  shows "src_supports s f =
     (case (map_of supports_default ++ given_supports kw) f of
        Some b \<Rightarrow> Some b
      | None \<Rightarrow>
          if f \<in> set (rs @ [''preview'', ''structure-specific data''])
          then Some (src_data_content_type s = XML) else None)"
proof (cases "BaseModel_init cls kw")
  case (Inl e)
  with assms show ?thesis by (simp add: Source_init_def)
next
  case (Inr self)
  let ?fs = "rs @ [''preview'', ''structure-specific data'']"
  let ?m = "src_supports self ++ given_supports kw"
  let ?v = "src_data_content_type self = XML"
  from assms Inr
  have s: "s = self\<lparr>src_supports := fold (\<lambda>feature m. setdefault m feature ?v) ?fs ?m\<rparr>"
    unfolding Source_init_def Let_def given_supports_def by simp
  then have sup: "src_supports s f = fold (\<lambda>feature m. setdefault m feature ?v) ?fs ?m f"
    and dct: "src_data_content_type self = src_data_content_type s"
    by simp_all
  show ?thesis
    unfolding sup fold_setdefault BaseModel_init_supports [OF Inr] dct ..
qed

lemma Source_init_projr:
  "BaseModel_init cls kw = Inr self \<Longrightarrow>
   Source_init rs cls kw = Inr (projr (Source_init rs cls kw)) \<and>
   src_data_content_type (projr (Source_init rs cls kw)) = src_data_content_type self"
  unfolding Source_init_def Let_def by simp

lemma BaseModel_init_xml_info:
  "BaseModel_init Source_cls xml_info =
     Inr \<lparr>src_class = Source_cls, src_id = ''X'', src_url = ''https://example.org/rest'',
          src_name = ''Example'', src_data_content_type = XML,
          src_supports = map_of supports_default\<rparr>"
  by (simp add: BaseModel_init_def xml_info_def validate_id_def Source_cls_def)

lemma BaseModel_init_json_info:
  "BaseModel_init Source_cls json_info =
     Inr \<lparr>src_class = Source_cls, src_id = ''X'', src_url = ''https://example.org/json'',
          src_name = ''Example 2'', src_data_content_type = JSON,
          src_supports = map_of supports_default\<rparr>"
  by (simp add: BaseModel_init_def json_info_def validate_id_def validate_dct_def
      Source_cls_def)

lemma Source_init_xml_info:
  "Source_init test_resources Source_cls xml_info = Inr xml_source"
  "src_data_content_type xml_source = XML"
  using Source_init_projr [OF BaseModel_init_xml_info, of test_resources]
  by (simp_all add: xml_source_def)

lemma Source_init_json_info:
  "Source_init test_resources Source_cls json_info = Inr json_source"
  "src_data_content_type json_source = JSON"
  using Source_init_projr [OF BaseModel_init_json_info, of test_resources]
  by (simp_all add: json_source_def)


section \<open>Claims about source descriptions and the registry\<close>

text \<open>
  C3, as stated, fails.  The claim: a capability that the \<open>supports\<close> input does not
  give is reported as supported exactly when the content type is XML.  For an XML
  source without a \<open>supports\<close> input, \<open>actualconstraint\<close> is reported as unsupported,
  and for a JSON source without one, \<open>data\<close> is reported as supported: both values come
  from the class-level default of \<open>supports\<close>.
\<close>

theorem Source_supports_default_counterexample:
  "info_supports xml_info = None
   \<and> Source_init test_resources Source_cls xml_info = Inr xml_source
   \<and> src_data_content_type xml_source = XML
   \<and> src_supports xml_source ''actualconstraint'' = Some False
   \<and> info_supports json_info = None
   \<and> Source_init test_resources Source_cls json_info = Inr json_source
   \<and> src_data_content_type json_source = JSON
   \<and> src_supports json_source ''data'' = Some True"
proof -
  have "src_supports xml_source ''actualconstraint'' = Some False"
    using Source_init_supports [OF Source_init_xml_info(1), of "''actualconstraint''"]
    by (simp add: given_supports_def xml_info_def supports_default_def)
  moreover have "src_supports json_source ''data'' = Some True"
    using Source_init_supports [OF Source_init_json_info(1), of "''data''"]
    by (simp add: given_supports_def json_info_def supports_default_def)
  ultimately show ?thesis
    using Source_init_xml_info Source_init_json_info
    by (simp add: xml_info_def json_info_def)
qed

text \<open>
  C3, amended.  For a source that is constructed and a feature of
  \<open>list(Resource) + ["preview", "structure-specific data"]\<close> that the \<open>supports\<close> input
  does not give: the reported value is the one of the class-level default of \<open>supports\<close>
  when that table has the feature (\<open>data\<close>: supported, the nineteen others: unsupported),
  and otherwise it is "supported" exactly when the content type is XML.
\<close>

theorem Source_supports_unspecified:
  assumes "Source_init rs cls kw = Inr s"
    and "f \<in> set (rs @ [''preview'', ''structure-specific data''])"
    and "\<forall>m. info_supports kw = Some m \<longrightarrow> m f = None"
  shows "src_supports s f =
     Some (case map_of supports_default f of
             Some b \<Rightarrow> b
           | None \<Rightarrow> src_data_content_type s = XML)"
proof -
  from assms(3)
  have "(map_of supports_default ++ given_supports kw) f = map_of supports_default f"
    by (auto simp: map_add_def given_supports_def split: option.splits)
  with Source_init_supports [OF assms(1), of f] assms(2) show ?thesis
    by (simp split: option.splits)
qed

theorem Source_supports_unspecified_witness:
  "src_supports xml_source ''codelist'' = Some True
   \<and> src_supports json_source ''preview'' = Some False
   \<and> src_supports json_source ''metadata'' = Some False"
proof -
  have x: "\<forall>m. info_supports xml_info = Some m \<longrightarrow> m ''codelist'' = None"
    and j1: "\<forall>m. info_supports json_info = Some m \<longrightarrow> m ''preview'' = None"
    and j2: "\<forall>m. info_supports json_info = Some m \<longrightarrow> m ''metadata'' = None"
    by (simp_all add: xml_info_def json_info_def)
  have mx: "''codelist'' \<in> set (test_resources @ [''preview'', ''structure-specific data''])"
    and m1: "''preview'' \<in> set (test_resources @ [''preview'', ''structure-specific data''])"
    and m2: "''metadata'' \<in> set (test_resources @ [''preview'', ''structure-specific data''])"
    by (simp_all add: test_resources_def supports_default_def)
  from Source_supports_unspecified [OF Source_init_xml_info(1) mx x]
    Source_supports_unspecified [OF Source_init_json_info(1) m1 j1]
    Source_supports_unspecified [OF Source_init_json_info(1) m2 j2]
  show ?thesis
    by (simp add: Source_init_xml_info(2) Source_init_json_info(2) supports_default_def)
qed



text \<open>
  C10.  Whenever \<open>add_source\<close> raises the duplicate-source error, the registry it leaves
  is the registry it was given; and the error is raised only for a call without
  \<open>override\<close> whose id is already registered.
\<close>

theorem add_source_duplicate_keeps_registry:
  assumes "fst (add_source M rs info i ov kw sources) = Inl (DuplicateSource k)"
  shows "snd (add_source M rs info i ov kw sources) = sources
     \<and> \<not> ov \<and> sources k \<noteq> None \<and> resolve_id info i = Inr k"
proof -
  have no_dup_init: "\<And>c x. Source_init rs c x \<noteq> Inl (DuplicateSource k)"
    by (auto simp: Source_init_def BaseModel_init_def validate_id_def validate_dct_def
        Let_def split: option.splits sum.splits dct_value.splits if_splits)
  have no_dup_find: "\<And>x. find_class M x \<noteq> Inl (DuplicateSource k)"
    by (auto simp: find_class_def split: import_result.splits option.splits)
  have no_dup_res: "resolve_id info i \<noteq> Inl (DuplicateSource k)"
    by (auto simp: resolve_id_def split: option.splits if_splits)
  from assms no_dup_init no_dup_find no_dup_res show ?thesis
    by (auto simp: add_source_def Let_def split: sum.splits if_splits)
qed

theorem add_source_duplicate_keeps_registry_witness:
  "fst (add_source no_modules test_resources json_info None False no_kwargs registry_X) =
     Inl (DuplicateSource ''X'')
   \<and> snd (add_source no_modules test_resources json_info None False no_kwargs registry_X) =
     registry_X"
proof -
  have h: "fst (add_source no_modules test_resources json_info None False no_kwargs
      registry_X) = Inl (DuplicateSource ''X'')"
    by (simp add: add_source_def resolve_id_def json_info_def registry_X_def)
  from add_source_duplicate_keeps_registry [OF h] h show ?thesis by simp
qed

section \<open>Facts about URNs\<close>

lemma show_nat_1: "show_nat (Suc 0) = ''1''"
  by code_simp









section \<open>Claims about URNs\<close>

text \<open>
  C4.  For an item \<open>x\<close> (not itself maintainable), whatever \<open>strict\<close> is: without a
  maintainable parent, \<open>make\<close> fails with "Neither \<open>repr(x)\<close> nor None are maintainable";
  with a parent that has no maintainer, it fails with "Cannot construct URN for
  \<open>repr(parent)\<close> without maintainer".
\<close>

theorem make_urn_item_errors:
  "make_urn (Item t i None) strict =
     Inl (ValueError (''Neither '' @ repr (Item t i None) @ '' nor None are maintainable''))
   \<and> (ma_maintainer p = None \<longrightarrow>
        make_urn (Item t i (Some p)) strict =
          Inl (ValueError
                (''Cannot construct URN for '' @ repr_ma p @ '' without maintainer'')))"
  by (simp add: make_urn_def)

text \<open>The two failures as \<open>test_make\<close> expects them.\<close>

theorem make_urn_item_errors_witness:
  "make_urn (c_BAR None) False =
     Inl (ValueError ''Neither <Code BAR> nor None are maintainable'')
   \<and> ma_maintainer (cl_FOO None None) = None
   \<and> make_urn (c_BAR (Some (cl_FOO None None))) False =
     Inl (ValueError
           ''Cannot construct URN for <Codelist FOO (1 items)> without maintainer'')"
proof -
  have h: "ma_maintainer (cl_FOO None None) = None" by (simp add: cl_FOO_def)
  have r1: "repr (Item Code_type ''BAR'' None) = ''<Code BAR>''"
    by (simp add: repr_def Code_type_def)
  have r2: "repr_ma (cl_FOO None None) = ''<Codelist FOO (1 items)>''"
    by (simp add: repr_ma_def cl_FOO_def Codelist_type_def show_nat_1)
  from make_urn_item_errors [of Code_type "''BAR''" False "cl_FOO None None"] h
  show ?thesis by (simp add: c_BAR_def r1 r2)
qed

text \<open>
  C5.  For an object whose maintainable artefact (itself or its parent) has a maintainer
  but no version: with \<open>strict=True\<close>, \<open>make\<close> fails with "Cannot construct URN for
  \<open>repr(parent)\<close> without version", where the representation shows the maintainer; with
  \<open>strict=False\<close> it succeeds, and the URN has no version segment: the id is followed
  at once by the item suffix.
\<close>

theorem make_urn_without_version:
  assumes "obj_ma obj = Some m" and "ma_maintainer m = Some a" and "ma_version m = None"
  shows "make_urn obj True =
           Inl (ValueError
                 (''Cannot construct URN for '' @ repr_ma m @ '' without version''))
     \<and> repr_ma m = ''<'' @ type_name (ma_type m) @ '' '' @ a @ '':'' @ ma_id m
                      @ '' ('' @ show_nat (ma_items m) @ '' items)>''
     \<and> make_urn obj False =
           Inr (urn_prefix @ type_package (obj_type obj) @ ''.''
                @ type_name (obj_type obj) @ ''='' @ a @ '':'' @ ma_id m @ extra_id obj)"
  using assms
  by (cases obj)
     (auto simp: make_urn_def obj_ma_def obj_type_def extra_id_def urn_prefix_def
           repr_ma_def)

text \<open>The strict failure as \<open>test_make\<close> expects it, and the URN without version.\<close>

theorem make_urn_without_version_witness:
  "make_urn (c_BAR (Some (cl_FOO (Some ''BAZ'') None))) True =
     Inl (ValueError
           ''Cannot construct URN for <Codelist BAZ:FOO (1 items)> without version'')
   \<and> make_urn (c_BAR (Some (cl_FOO (Some ''BAZ'') None))) False =
     Inr ''urn:sdmx:org.sdmx.infomodel.codelist.Code=BAZ:FOO.BAR''"
proof -
  have h1: "obj_ma (c_BAR (Some (cl_FOO (Some ''BAZ'') None))) =
      Some (cl_FOO (Some ''BAZ'') None)"
    by (simp add: obj_ma_def c_BAR_def)
  have h2: "ma_maintainer (cl_FOO (Some ''BAZ'') None) = Some ''BAZ''"
    and h3: "ma_version (cl_FOO (Some ''BAZ'') None) = None"
    by (simp_all add: cl_FOO_def)
  have r: "repr_ma (cl_FOO (Some ''BAZ'') None) = ''<Codelist BAZ:FOO (1 items)>''"
    by (simp add: repr_ma_def cl_FOO_def Codelist_type_def show_nat_1)
  have t: "obj_type (c_BAR (Some (cl_FOO (Some ''BAZ'') None))) = Code_type"
    "extra_id (c_BAR (Some (cl_FOO (Some ''BAZ'') None))) = ''.BAR''"
    "ma_id (cl_FOO (Some ''BAZ'') None) = ''FOO''"
    by (simp_all add: obj_type_def extra_id_def c_BAR_def cl_FOO_def)
  from make_urn_without_version [OF h1 h2 h3] show ?thesis
    by (simp add: r t urn_prefix_def Code_type_def)
qed

text \<open>
  C6.  For the codelist \<open>FOO\<close> with maintainer \<open>BAZ\<close> and version \<open>1.2.3\<close> that holds the
  code \<open>BAR\<close>, \<open>make\<close> of the code and of the codelist are the two URNs of \<open>test_make\<close>.
\<close>

theorem make_urn_code_and_codelist:
  "make_urn (c_BAR (Some (cl_FOO (Some ''BAZ'') (Some ''1.2.3'')))) False =
     Inr ''urn:sdmx:org.sdmx.infomodel.codelist.Code=BAZ:FOO(1.2.3).BAR''
   \<and> make_urn (Maintainable (cl_FOO (Some ''BAZ'') (Some ''1.2.3''))) False =
     Inr ''urn:sdmx:org.sdmx.infomodel.codelist.Codelist=BAZ:FOO(1.2.3)''"
  by (simp add: make_urn_def c_BAR_def cl_FOO_def Code_type_def Codelist_type_def)



end
